theory Spec2Isabelle
  imports Complex_Main "HOL-Library.Sublist"
begin

section \<open>Packaging metadata: \<^verbatim>\<open>pyproject.toml\<close>\<close>

text \<open>
  The repository excerpt consists of two files.  Their paths, relative to the root of the
  source tree, are the whole content of that tree.
\<close>

definition source_tree :: "string list" where
  "source_tree = [''notebooks/generate_data.ipynb'', ''pyproject.toml'']"

text \<open>
  A TOML document is a tree: a value is a string, an array, or a table of named values.
  A header such as \<^verbatim>\<open>[project.entry-points."hyperspy.extensions"]\<close> opens the table
  \<^verbatim>\<open>hyperspy.extensions\<close> inside \<^verbatim>\<open>entry-points\<close> inside \<^verbatim>\<open>project\<close>.
  Tables keep the order of the file.
\<close>

datatype toml = TString string | TArray "toml list" | TTable "(string \<times> toml) list"

definition pyproject :: toml where
  "pyproject = TTable [
    (''build-system'', TTable [
      (''requires'', TArray [TString ''setuptools>=64'', TString ''setuptools_scm>=8'',
                             TString ''wheel'']),
      (''build-backend'', TString ''setuptools.build_meta'')]),
    (''tool'', TTable [
      (''setuptools'', TTable [
        (''packages'', TArray [TString ''espm'', TString ''espm.datasets'',
           TString ''espm.estimators'', TString ''espm.models'', TString ''espm.tables'',
           TString ''espm.tests'', TString ''espm.weights''])])]),
    (''project'', TTable [
      (''name'', TString ''espm''),
      (''version'', TString ''1.1.3''),
      (''description'', TString ''Electron SPectro-Microscopy Python Library''),
      (''requires-python'', TString ''>=3.8''),
      (''readme'', TString ''README.rst''),
      (''keywords'', TArray [
        TString ''python'',
        TString ''data analysis'',
        TString ''microscopy'',
        TString ''electron microscopy'',
        TString ''energy-dispersive X-ray spectroscopy'',
        TString ''X-ray energy-dispersive spectroscopy'',
        TString ''EDS'',
        TString ''EDX'',
        TString ''STEM'']),
      (''classifiers'', TArray [
        TString ''Development Status :: 5 - Production/Stable'',
        TString ''Intended Audience :: Science/Research'',
        TString ''Intended Audience :: End Users/Desktop'',
        TString ''Intended Audience :: Developers'', TString ''Natural Language :: English'',
        TString ''License :: OSI Approved :: GNU General Public License v3 (GPLv3)'',
        TString ''Operating System :: MacOS :: MacOS X'',
        TString ''Operating System :: POSIX :: Linux'', TString ''Programming Language :: C'',
        TString ''Programming Language :: Python :: 3.10'',
        TString ''Programming Language :: Python :: 3.9'',
        TString ''Programming Language :: Python :: 3.8'',
        TString ''Topic :: Scientific/Engineering :: Mathematics'',
        TString ''Topic :: Scientific/Engineering'']),
      (''dependencies'', TArray [
        TString ''exspy==0.3.1'',
        TString ''hyperspy==2.2.0'',
        TString ''hyperspy-gui-ipywidgets==2.0.3'',
        TString ''hyperspy-gui-traitsui==2.0.1'',
        TString ''intervaltree==3.1.0'',
        TString ''tqdm==4.67.0'',
        TString ''prettytable==3.12.0'',
        TString ''scikit-learn'',
        TString ''pyqt5==5.15.10'',
        TString ''traits==7.0.2'']),
      (''entry-points'', TTable [
        (''hyperspy.extensions'', TTable [
          (''espm'', TString ''espm'')])]),
      (''license'', TTable [
        (''file'', TString ''Licence.txt'')]),
      (''optional-dependencies'', TTable [
        (''dev'', TArray [
          TString ''numpydoc'',
          TString ''flake8'',
          TString ''sphinx'',
          TString ''setuptools'',
          TString ''jupyterlab'',
          TString ''wheel'',
          TString ''sphinxcontrib-bibtex'',
          TString ''memory_profiler'',
          TString ''sphinx-rtd-theme'',
          TString ''sphinx-copybutton'',
          TString ''sphinx-gallery'',
          TString ''nbsphinx'',
          TString ''pandoc'',
          TString ''pytest''])]),
      (''urls'', TTable [
        (''Homepage'', TString ''https://espm.readthedocs.io/en/latest/''),
        (''Bug Reports'', TString ''https://github.com/adriente/espm/issues''),
        (''Source'', TString ''https://github.com/adriente/espm'')])])]"

text \<open>Reading the document: a key of a table, a dotted path of keys, an array of strings.\<close>

fun table_get :: "string \<Rightarrow> toml \<Rightarrow> toml option" where
  "table_get k (TTable kvs) = map_of kvs k"
| "table_get k (TString s) = None"
| "table_get k (TArray xs) = None"

fun toml_get :: "string list \<Rightarrow> toml \<Rightarrow> toml option" where
  "toml_get [] t = Some t"
| "toml_get (k # ks) t = (case table_get k t of None \<Rightarrow> None | Some t' \<Rightarrow> toml_get ks t')"

fun string_of :: "toml \<Rightarrow> string option" where
  "string_of (TString s) = Some s"
| "string_of (TArray xs) = None"
| "string_of (TTable kvs) = None"

fun those_opt :: "'a option list \<Rightarrow> 'a list option" where
  "those_opt [] = Some []"
| "those_opt (None # xs) = None"
| "those_opt (Some x # xs) = (case those_opt xs of None \<Rightarrow> None | Some ys \<Rightarrow> Some (x # ys))"

fun strings_of :: "toml \<Rightarrow> string list option" where
  "strings_of (TArray xs) = those_opt (map string_of xs)"
| "strings_of (TString s) = None"
| "strings_of (TTable kvs) = None"

definition string_array :: "string list \<Rightarrow> toml \<Rightarrow> string list option" where
  "string_array ks t = (case toml_get ks t of None \<Rightarrow> None | Some a \<Rightarrow> strings_of a)"

text \<open>
  A dependency string is a distribution name followed by an optional version specifier.
  The name is the longest prefix of letters, digits, \<^verbatim>\<open>-\<close>, \<^verbatim>\<open>_\<close> and \<^verbatim>\<open>.\<close>; the
  string pins an exact version when what follows the name is \<^verbatim>\<open>==\<close> and a non-empty
  version made of digits and dots only (so no wildcard, no second clause, no marker).
\<close>

definition name_chars :: string where
  "name_chars = ''abcdefghijklmnopqrstuvwxyzABCDEFGHIJKLMNOPQRSTUVWXYZ0123456789-_.''"

definition version_chars :: string where
  "version_chars = ''0123456789.''"

definition requirement_name :: "string \<Rightarrow> string" where
  "requirement_name d = takeWhile (\<lambda>c. List.member name_chars c) d"

definition requirement_spec :: "string \<Rightarrow> string" where
  "requirement_spec d = dropWhile (\<lambda>c. List.member name_chars c) d"

fun exact_version :: "string \<Rightarrow> string option" where
  "exact_version (a # b # v) =
     (if a = CHR ''='' \<and> b = CHR ''='' \<and> v \<noteq> [] \<and> list_all (\<lambda>c. List.member version_chars c) v
      then Some v else None)"
| "exact_version [a] = None"
| "exact_version [] = None"

definition pinned_version :: "string \<Rightarrow> string option" where
  "pinned_version d = exact_version (requirement_spec d)"

definition pinned :: "string \<Rightarrow> bool" where
  "pinned d = (pinned_version d \<noteq> None)"

definition dependencies :: "string list" where
  "dependencies = (case string_array [''project'', ''dependencies''] pyproject of
                      None \<Rightarrow> [] | Some ds \<Rightarrow> ds)"


section \<open>The notebook \<^verbatim>\<open>notebooks/generate_data.ipynb\<close>\<close>

subsection \<open>Python syntax\<close>

text \<open>
  The code cells of the notebook are Python.  Several properties of the notebook are about
  how it calls the library (by keyword or by position, with which variable), so the cells
  are kept as syntax trees.  Integer literals are \<open>int\<close>; a float literal stands for its
  exact decimal value, a rational number.
\<close>

datatype binop = Add | Mult | Div

datatype expr =
    Name string
  | StrC string
  | IntC int
  | FloatC rat
  | BoolC bool
  | ListE "expr list"
  | TupleE "expr list"
  | DictE "(expr \<times> expr) list"
  | Subscript expr expr
  | SliceAll
  | Attribute expr string
  | Call expr "expr list" "(string \<times> expr) list"
  | BinOp expr binop expr
  | USub expr

datatype stmt =
    Magic string
  | ImportFrom string "string list"
  | Import string string
  | FunctionDef string "string list" "stmt list"
  | Return expr
  | Assign expr expr
  | AugAssign expr binop expr
  | Delete "expr list"
  | For expr expr "stmt list"
  | ExprS expr

subsection \<open>The code cells\<close>

text \<open>
  The notebook has seven code cells; the markdown cells between them hold no code.  The
  first three lines of the first cell are IPython magics.  \<open>Import m a\<close> is
  \<^verbatim>\<open>import m as a\<close>, \<open>SliceAll\<close> is the slice \<^verbatim>\<open>:\<close>, and \<open>USub\<close> is unary minus.
\<close>

definition cell_imports :: "stmt list" where
  "cell_imports = [
    Magic ''load_ext autoreload'',
    Magic ''autoreload 2'',
    Magic ''matplotlib inline'',
    ImportFrom ''espm.datasets.base'' [''generate_dataset''],
    ImportFrom ''espm.weights.generate_weights'' [''chemical_map_weights''],
    ImportFrom ''espm.models.generate_EDXS_phases'' [''generate_modular_phases''],
    ImportFrom ''espm.models.EDXS_function'' [''elts_list_from_dict_list''],
    ImportFrom ''pathlib'' [''Path''],
    Import ''matplotlib.pyplot'' ''plt'',
    Import ''numpy'' ''np'',
    Import ''hyperspy.api'' ''hs'']"

definition cell_weights :: "stmt list" where
  "cell_weights = [
    FunctionDef ''get_repo_path'' [] [
      ExprS (StrC (''Get the path to the git repository.'' @ [CHR 0x0A] @ ''    '' @ [CHR 0x0A]
                   @ ''    This is a bit of a hack, but it works.'' @ [CHR 0x0A] @ ''    '')),
      Assign (Name ''this_path'')
        (BinOp (Call (Attribute (Name ''Path'') ''cwd'') [] []) Div
               (Call (Name ''Path'') [StrC ''generate_data.ipynb''] [])),
      Return (Attribute (Attribute (Call (Attribute (Name ''this_path'') ''resolve'') [] [])
                ''parent'') ''parent'')],
    Assign (Name ''path'')
      (BinOp (Call (Name ''get_repo_path'') [] []) Div
             (Call (Name ''Path'') [StrC ''generated_datasets/71GPa_experimental_data.hspy''] [])),
    Assign (Name ''weights'')
      (Call (Name ''chemical_map_weights'') []
         [(''file'', Name ''path''),
          (''line_list'', ListE [StrC ''Fe_Ka'', StrC ''Ca_Ka'']),
          (''conc_list'', ListE [FloatC 0.5, FloatC 0.5])])]"

definition cell_plot_weights :: "stmt list" where
  "cell_plot_weights = [
    Assign (TupleE [Name ''fig'', Name ''axs''])
      (Call (Attribute (Name ''plt'') ''subplots'') [IntC 1, IntC 3]
         [(''figsize'', TupleE [IntC 20, BinOp (IntC 20) Mult (IntC 3)])]),
    For (Name ''j'')
        (Call (Name ''range'') [Subscript (Attribute (Name ''axs'') ''shape'') (IntC 0)] []) [
      Assign (Name ''im'')
        (Call (Attribute (Subscript (Name ''axs'') (Name ''j'')) ''imshow'')
           [Subscript (Name ''weights'') (TupleE [SliceAll, SliceAll, Name ''j''])]
           [(''vmin'', IntC 0), (''vmax'', FloatC 1.0)]),
      ExprS (Call (Attribute (Subscript (Name ''axs'') (Name ''j'')) ''tick_params'') []
           [(''axis'', StrC ''both''), (''width'', IntC 0), (''labelbottom'', BoolC False),
            (''labelleft'', BoolC False)]),
      ExprS (Call (Attribute (Subscript (Name ''axs'') (Name ''j'')) ''set_title'')
           [Call (Attribute (StrC ''Phase {}'') ''format'') [Name ''j''] []]
           [(''fontsize'', IntC 22)])],
    ExprS (Call (Attribute (Name ''fig'') ''subplots_adjust'') [] [(''right'', FloatC 0.84)]),
    Assign (Name ''cbar_ax'')
      (Call (Attribute (Name ''fig'') ''add_axes'')
         [ListE [FloatC 0.85, FloatC 0.47, FloatC 0.01, FloatC 0.045]] []),
    ExprS (Call (Attribute (Name ''fig'') ''colorbar'') [Name ''im'']
         [(''cax'', Name ''cbar_ax'')]),
    ExprS (Call (Attribute (Name ''cbar_ax'') ''tick_params'') [] [(''labelsize'', IntC 22)])]"

definition cell_parameters :: "stmt list" where
  "cell_parameters = [
    Assign (Name ''elts_dicts'') (ListE [
      DictE [(StrC ''Mg'', FloatC 0.522), (StrC ''Fe'', FloatC 0.104), (StrC ''O'', FloatC 0.374),
             (StrC ''Cu'', FloatC 0.05)],
      DictE [(StrC ''Mg'', FloatC 0.020), (StrC ''Fe'', FloatC 0.018), (StrC ''Ca'', FloatC 0.188),
             (StrC ''Si'', FloatC 0.173), (StrC ''Al'', FloatC 0.010), (StrC ''O'', FloatC 0.572),
             (StrC ''Ti'', FloatC 0.004), (StrC ''Cu'', FloatC 0.05), (StrC ''Sm'', FloatC 0.007),
             (StrC ''Lu'', FloatC 0.006), (StrC ''Nd'', FloatC 0.006)],
      DictE [(StrC ''Mg'', FloatC 0.445), (StrC ''Fe'', FloatC 0.035), (StrC ''Ca'', FloatC 0.031),
             (StrC ''Si'', FloatC 0.419), (StrC ''Al'', FloatC 0.074), (StrC ''O'', FloatC 1.136),
             (StrC ''Cu'', FloatC 0.05), (StrC ''Hf'', FloatC 0.01)]]),
    Assign (Name ''brstlg_pars'') (ListE [
      DictE [(StrC ''b0'', FloatC 0.0001629), (StrC ''b1'', FloatC 0.0009812)],
      DictE [(StrC ''b0'', FloatC 0.0007853), (StrC ''b1'', FloatC 0.0003658)],
      DictE [(StrC ''b0'', FloatC 0.0003458), (StrC ''b1'', FloatC 0.0006268)]]),
    Assign (Name ''model_params'') (DictE [
      (StrC ''e_offset'', FloatC 0.3),
      (StrC ''e_size'', IntC 1980),
      (StrC ''e_scale'', FloatC 0.01),
      (StrC ''width_slope'', FloatC 0.01),
      (StrC ''width_intercept'', FloatC 0.065),
      (StrC ''db_name'', StrC ''200keV_xrays.json''),
      (StrC ''E0'', IntC 200),
      (StrC ''params_dict'', DictE [
        (StrC ''Abs'', DictE [
          (StrC ''thickness'', FloatC (100.0 / 10 ^ 7)),
          (StrC ''toa'', IntC 35),
          (StrC ''density'', FloatC 4.5),
          (StrC ''atomic_fraction'', BoolC False)]),
        (StrC ''Det'', StrC ''SDD_efficiency.txt'')])]),
    Assign (Name ''data_dict'') (DictE [
      (StrC ''N'', IntC 100),
      (StrC ''densities'', ListE [FloatC 1.2, FloatC 1.0, FloatC 0.8]),
      (StrC ''data_folder'', StrC ''71GPa_synthetic_N100''),
      (StrC ''model'', StrC ''EDXS''),
      (StrC ''seed'', IntC 42)])]"

definition cell_phases :: "stmt list" where
  "cell_phases = [
    Assign (Name ''phases'')
      (Call (Name ''generate_modular_phases'') []
         [(''elts_dicts'', Name ''elts_dicts''), (''brstlg_pars'', Name ''brstlg_pars''),
          (''scales'', ListE [IntC 1, IntC 1, IntC 1]),
          (''model_params'', Name ''model_params''),
          (''seed'', IntC 42)]),
    Assign (Name ''elements'')
      (Call (Name ''elts_list_from_dict_list'') [Name ''elts_dicts''] [])]"

definition cell_plot_phases :: "stmt list" where
  "cell_plot_phases = [
    Assign (TupleE [Name ''fig'', Name ''axs''])
      (Call (Attribute (Name ''plt'') ''subplots'') [IntC 3, IntC 1]
         [(''figsize'', TupleE [IntC 20, IntC 15])]),
    Assign (Name ''x'')
      (Call (Attribute (Name ''np'') ''linspace'')
         [Subscript (Name ''model_params'') (StrC ''e_offset''),
          BinOp (Subscript (Name ''model_params'') (StrC ''e_offset'')) Add
            (BinOp (Subscript (Name ''model_params'') (StrC ''e_scale'')) Mult
                   (Subscript (Name ''model_params'') (StrC ''e_size'')))]
         [(''num'', Subscript (Name ''model_params'') (StrC ''e_size''))]),
    For (Name ''j'')
        (Call (Name ''range'') [Subscript (Attribute (Name ''axs'') ''shape'') (IntC 0)] []) [
      ExprS (Call (Attribute (Subscript (Name ''axs'') (Name ''j'')) ''plot'')
           [Name ''x'', Subscript (Name ''phases'') (Name ''j'')] []),
      ExprS (Call (Attribute (Subscript (Name ''axs'') (Name ''j'')) ''set_title'')
           [Call (Attribute (StrC ''Phase {}'') ''format'') [Name ''j''] []]
           [(''fontsize'', IntC 22)])],
    ExprS (Call (Attribute (Subscript (Name ''axs'') (USub (IntC 1))) ''set_xlabel'')
         [StrC ''Energy loss (eV)''] [(''fontsize'', IntC 16)])]"

definition cell_generate :: "stmt list" where
  "cell_generate = [
    ExprS (Call (Name ''generate_dataset'') []
         [(''phases'', Name ''phases''),
          (''weights'', Name ''weights''),
          (''model_params'', Name ''model_params''),
          (''misc_params'', Name ''data_dict''),
          (''base_seed'', Subscript (Name ''data_dict'') (StrC ''seed'')),
          (''sample_number'', IntC 1),
          (''elements'', Name ''elements'')])]"

text \<open>Running the notebook from top to bottom executes the cells in this order.\<close>

definition notebook :: "stmt list list" where
  "notebook = [cell_imports, cell_weights, cell_plot_weights, cell_parameters, cell_phases,
               cell_plot_phases, cell_generate]"

definition program :: "stmt list" where
  "program = concat notebook"

subsection \<open>Reading the syntax\<close>

text \<open>
  \<open>subexprs e\<close> lists \<open>e\<close> and every expression inside it, in the order Python evaluates
  them.  \<open>stmt_values\<close> gives the expressions a statement evaluates, \<open>stmt_targets\<close> the
  targets it stores to or deletes, both through the bodies of functions and loops.
\<close>

fun subexprs :: "expr \<Rightarrow> expr list" where
  "subexprs (Name x) = [Name x]"
| "subexprs (StrC s) = [StrC s]"
| "subexprs (IntC i) = [IntC i]"
| "subexprs (FloatC r) = [FloatC r]"
| "subexprs (BoolC b) = [BoolC b]"
| "subexprs (ListE xs) = ListE xs # concat (map subexprs xs)"
| "subexprs (TupleE xs) = TupleE xs # concat (map subexprs xs)"
| "subexprs (DictE kvs) = DictE kvs # concat (map (\<lambda>(k, v). subexprs k @ subexprs v) kvs)"
| "subexprs (Subscript b k) = Subscript b k # subexprs b @ subexprs k"
| "subexprs SliceAll = [SliceAll]"
| "subexprs (Attribute b a) = Attribute b a # subexprs b"
| "subexprs (Call f as kws) =
     Call f as kws # subexprs f @ concat (map subexprs as)
       @ concat (map (\<lambda>(k, v). subexprs v) kws)"
| "subexprs (BinOp l opr r) = BinOp l opr r # subexprs l @ subexprs r"
| "subexprs (USub e) = USub e # subexprs e"

fun stmt_values :: "stmt \<Rightarrow> expr list" where
  "stmt_values (Magic m) = []"
| "stmt_values (ImportFrom m ns) = []"
| "stmt_values (Import m a) = []"
| "stmt_values (FunctionDef f ps body) = concat (map stmt_values body)"
| "stmt_values (Return e) = [e]"
| "stmt_values (Assign t e) = [e]"
| "stmt_values (AugAssign t opr e) = [e]"
| "stmt_values (Delete ts) = []"
| "stmt_values (For t it body) = it # concat (map stmt_values body)"
| "stmt_values (ExprS e) = [e]"

fun stmt_targets :: "stmt \<Rightarrow> expr list" where
  "stmt_targets (Magic m) = []"
| "stmt_targets (ImportFrom m ns) = []"
| "stmt_targets (Import m a) = []"
| "stmt_targets (FunctionDef f ps body) = concat (map stmt_targets body)"
| "stmt_targets (Return e) = []"
| "stmt_targets (Assign t e) = [t]"
| "stmt_targets (AugAssign t opr e) = [t]"
| "stmt_targets (Delete ts) = ts"
| "stmt_targets (For t it body) = t # concat (map stmt_targets body)"
| "stmt_targets (ExprS e) = []"

definition values_in :: "stmt list \<Rightarrow> expr list" where
  "values_in ss = concat (map stmt_values ss)"

definition targets_in :: "stmt list \<Rightarrow> expr list" where
  "targets_in ss = concat (map stmt_targets ss)"

text \<open>Every call expression: the callee, the positional arguments, the keyword arguments.\<close>

type_synonym call = "expr \<times> expr list \<times> (string \<times> expr) list"

definition calls :: "stmt list \<Rightarrow> call list" where
  "calls ss = [(f, as, kws). Call f as kws \<leftarrow> concat (map subexprs (values_in ss))]"

text \<open>
  The names bound by \<^verbatim>\<open>from m import n\<close> where \<open>m\<close> is the package \<^verbatim>\<open>espm\<close> or a module
  inside it, and the modules \<^verbatim>\<open>espm...\<close> bound whole by \<^verbatim>\<open>import m as a\<close>.
\<close>

definition is_espm :: "string \<Rightarrow> bool" where
  "is_espm m = (m = ''espm'' \<or> prefix ''espm.'' m)"

definition espm_imports :: "stmt list \<Rightarrow> (string \<times> string) list" where
  "espm_imports ss = [(m, n). ImportFrom m ns \<leftarrow> ss, n \<leftarrow> ns, is_espm m]"

definition espm_module_aliases :: "stmt list \<Rightarrow> string list" where
  "espm_module_aliases ss = [a. Import m a \<leftarrow> ss, is_espm m]"

definition espm_names :: "stmt list \<Rightarrow> string list" where
  "espm_names ss = map snd (espm_imports ss)"

text \<open>The calls whose callee is one of the names imported from \<^verbatim>\<open>espm\<close>.\<close>

fun callee_name :: "call \<Rightarrow> string option" where
  "callee_name (Name n, as, kws) = Some n"
| "callee_name (f, as, kws) = None"

definition library_calls :: "stmt list \<Rightarrow> (string \<times> expr list \<times> (string \<times> expr) list) list" where
  "library_calls ss =
     [(n, as, kws). (Name n, as, kws) \<leftarrow> calls ss, List.member (espm_names ss) n]"

definition other_callees :: "stmt list \<Rightarrow> expr list" where
  "other_callees ss =
     [f. (f, as, kws) \<leftarrow> calls ss,
         case callee_name (f, as, kws) of None \<Rightarrow> True
                                        | Some n \<Rightarrow> \<not> List.member (espm_names ss) n]"

definition kwarg :: "string \<Rightarrow> string \<Rightarrow> stmt list \<Rightarrow> expr option" where
  "kwarg f k ss = (case [kws. (n, as, kws) \<leftarrow> library_calls ss, n = f] of
                     [kws] \<Rightarrow> map_of kws k
                   | _ \<Rightarrow> None)"

text \<open>
  A module \<^verbatim>\<open>a.b.c\<close> is implemented by the file \<^verbatim>\<open>a/b/c.py\<close> or by the package file
  \<^verbatim>\<open>a/b/c/__init__.py\<close>; it is present in the source tree when a path of the tree ends
  with one of the two.
\<close>

definition module_path :: "string \<Rightarrow> string" where
  "module_path m = map (\<lambda>c. if c = CHR ''.'' then CHR ''/'' else c) m"

definition implementation_files :: "string \<Rightarrow> string list" where
  "implementation_files m = [module_path m @ ''.py'', module_path m @ ''/__init__.py'']"

definition implemented :: "string \<Rightarrow> bool" where
  "implemented m = list_ex (\<lambda>f. list_ex (\<lambda>p. suffix f p) source_tree) (implementation_files m)"

text \<open>
  How a variable \<open>d\<close> is used inside an expression: passed as an argument of a call (with
  the callee, and the keyword or \<open>None\<close> for a positional argument), subscripted
  (\<^verbatim>\<open>d[k]\<close>), its attribute taken (\<^verbatim>\<open>d.a\<close>, which is how a method such as \<^verbatim>\<open>d.update\<close>
  would be reached), or any other occurrence.
\<close>

datatype use = Passed expr "string option" | ItemRead expr | AttrRead string | Bare

fun uses :: "string \<Rightarrow> expr \<Rightarrow> use list" where
  "uses d (Name x) = (if x = d then [Bare] else [])"
| "uses d (StrC s) = []"
| "uses d (IntC i) = []"
| "uses d (FloatC r) = []"
| "uses d (BoolC b) = []"
| "uses d (ListE xs) = concat (map (uses d) xs)"
| "uses d (TupleE xs) = concat (map (uses d) xs)"
| "uses d (DictE kvs) = concat (map (\<lambda>(k, v). uses d k @ uses d v) kvs)"
| "uses d (Subscript b k) = (if b = Name d then [ItemRead k] else uses d b) @ uses d k"
| "uses d SliceAll = []"
| "uses d (Attribute b a) = (if b = Name d then [AttrRead a] else uses d b)"
| "uses d (Call f as kws) =
     uses d f
     @ concat (map (\<lambda>a. if a = Name d then [Passed f None] else uses d a) as)
     @ concat (map (\<lambda>(k, v). if v = Name d then [Passed f (Some k)] else uses d v) kws)"
| "uses d (BinOp l opr r) = uses d l @ uses d r"
| "uses d (USub e) = uses d e"

definition uses_in :: "string \<Rightarrow> stmt list \<Rightarrow> use list" where
  "uses_in d ss = concat (map (uses d) (values_in ss))"

text \<open>The targets of assignment, augmented assignment, deletion or loops that mention \<open>d\<close>.\<close>

definition stores :: "string \<Rightarrow> stmt list \<Rightarrow> expr list" where
  "stores d ss = filter (\<lambda>t. List.member (subexprs t) (Name d)) (targets_in ss)"

text \<open>
  The statements after the one that binds \<open>d\<close>, up to and including the first one that
  calls \<open>f\<close>.
\<close>

definition binds :: "string \<Rightarrow> stmt \<Rightarrow> bool" where
  "binds d s = List.member (stmt_targets s) (Name d)"

definition invokes :: "string \<Rightarrow> stmt \<Rightarrow> bool" where
  "invokes f s = list_ex (\<lambda>c. callee_name c = Some f) (calls [s])"

definition between :: "string \<Rightarrow> string \<Rightarrow> stmt list \<Rightarrow> stmt list" where
  "between d f ss =
     (let rest = drop 1 (dropWhile (\<lambda>s. \<not> binds d s) ss) in
      takeWhile (\<lambda>s. \<not> invokes f s) rest @ take 1 (dropWhile (\<lambda>s. \<not> invokes f s) rest))"

definition config_names :: "string list" where
  "config_names = [''elts_dicts'', ''brstlg_pars'', ''model_params'', ''data_dict'']"

definition item_reads :: "string list \<Rightarrow> stmt list \<Rightarrow> (string \<times> expr) list" where
  "item_reads ds ss = [(d, k). d \<leftarrow> ds, ItemRead k \<leftarrow> uses_in d ss]"

text \<open>
  The top-level bindings of plain names, and what an expression refers to: a name refers
  to the expression last bound to it, a subscript with a string key to the entry of that
  key in the dictionary display its base refers to (the last entry, if a key is repeated),
  a literal or a display to itself.  Anything that needs a computation refers to nothing.
\<close>

fun binding :: "stmt \<Rightarrow> (string \<times> expr) list" where
  "binding (Assign (Name x) e) = [(x, e)]"
| "binding s = []"

definition bindings :: "stmt list \<Rightarrow> (string \<times> expr) list" where
  "bindings ss = concat (map binding ss)"

fun refers_to :: "stmt list \<Rightarrow> expr \<Rightarrow> expr option" where
  "refers_to ss (Name x) = map_of (rev (bindings ss)) x"
| "refers_to ss (Subscript b (StrC k)) =
     (case refers_to ss b of Some (DictE kvs) \<Rightarrow> map_of (rev kvs) (StrC k) | _ \<Rightarrow> None)"
| "refers_to ss (StrC s) = Some (StrC s)"
| "refers_to ss (IntC i) = Some (IntC i)"
| "refers_to ss (FloatC r) = Some (FloatC r)"
| "refers_to ss (BoolC b) = Some (BoolC b)"
| "refers_to ss (ListE xs) = Some (ListE xs)"
| "refers_to ss (DictE kvs) = Some (DictE kvs)"
| "refers_to ss e = None"







subsection \<open>Plot loops\<close>






subsection \<open>Paths\<close>

text \<open>
  \<^verbatim>\<open>pathlib\<close> paths on a POSIX system: whether the path starts at the root, and its
  components.  \<open>Path s\<close> parses a string, dropping empty components and \<^verbatim>\<open>.\<close>;
  \<open>truediv\<close> is the operator \<^verbatim>\<open>/\<close>, which keeps the right operand alone when it is
  absolute; \<open>parent\<close> drops the last component, and the parent of a path without
  components is the path itself.  The root \<^verbatim>\<open>//\<close> that POSIX treats specially is left
  out.
\<close>

record posix_path =
  is_abs :: bool
  names :: "string list"

fun split_on :: "char \<Rightarrow> string \<Rightarrow> string list" where
  "split_on c [] = [[]]"
| "split_on c (x # xs) =
     (if x = c then [] # split_on c xs
      else (case split_on c xs of [] \<Rightarrow> [[x]] | w # ws \<Rightarrow> (x # w) # ws))"

definition Path :: "string \<Rightarrow> posix_path" where
  "Path s = \<lparr>is_abs = (take 1 s = ''/''),
            names = filter (\<lambda>n. n \<noteq> [] \<and> n \<noteq> ''.'') (split_on (CHR ''/'') s)\<rparr>"

definition truediv :: "posix_path \<Rightarrow> posix_path \<Rightarrow> posix_path" where
  "truediv a b = (if is_abs b then b else \<lparr>is_abs = is_abs a, names = names a @ names b\<rparr>)"

definition parent :: "posix_path \<Rightarrow> posix_path" where
  "parent p = p\<lparr>names := butlast (names p)\<rparr>"

text \<open>
  \<^verbatim>\<open>get_repo_path\<close> and the variable \<^verbatim>\<open>path\<close> of the second cell.  \<^verbatim>\<open>Path.cwd()\<close> and
  \<^verbatim>\<open>resolve()\<close> depend on the process and on the links of the file system, so the
  working directory \<open>cwd\<close> and the function \<open>resolve\<close> are parameters.
\<close>

definition get_repo_path :: "posix_path \<Rightarrow> (posix_path \<Rightarrow> posix_path) \<Rightarrow> posix_path" where
  "get_repo_path cwd resolve =
     (let this_path = truediv cwd (Path ''generate_data.ipynb'')
      in parent (parent (resolve this_path)))"

definition path :: "posix_path \<Rightarrow> (posix_path \<Rightarrow> posix_path) \<Rightarrow> posix_path" where
  "path cwd resolve =
     truediv (get_repo_path cwd resolve) (Path ''generated_datasets/71GPa_experimental_data.hspy'')"

subsection \<open>Files the library touches\<close>




subsection \<open>Properties of calls and of the metadata\<close>

text \<open>
  A call passes everything by keyword when it has no positional argument; \<open>call_shape\<close>
  keeps the callee's name, the positional arguments and the keywords.
\<close>

definition by_keyword :: "string \<times> expr list \<times> (string \<times> expr) list \<Rightarrow> bool" where
  "by_keyword c = (fst (snd c) = [])"

definition keyword_only :: "stmt list \<Rightarrow> bool" where
  "keyword_only ss = list_all by_keyword (library_calls ss)"

definition call_shape ::
  "string \<times> expr list \<times> (string \<times> expr) list \<Rightarrow> string \<times> expr list \<times> string list" where
  "call_shape c = (fst c, fst (snd c), map fst (snd (snd c)))"

text \<open>What the keyword argument \<open>k\<close> of the call of \<open>f\<close> refers to.\<close>

definition arg_value :: "string \<Rightarrow> string \<Rightarrow> stmt list \<Rightarrow> expr option" where
  "arg_value f k ss = (case kwarg f k ss of None \<Rightarrow> None | Some e \<Rightarrow> refers_to ss e)"

text \<open>
  The reading of ``the only access is reading \<^verbatim>\<open>data_dict["seed"]\<close>'': every subscript of
  a configuration dictionary between the definition of \<open>d\<close> and the call of \<open>f\<close> is that
  one.
\<close>

definition seed_read :: "string \<times> expr \<Rightarrow> bool" where
  "seed_read r = (r = (''data_dict'', StrC ''seed''))"

definition only_seed_read :: "string \<Rightarrow> string \<Rightarrow> stmt list \<Rightarrow> bool" where
  "only_seed_read d f ss = list_all seed_read (item_reads config_names (between d f ss))"

definition unpinned :: "string list \<Rightarrow> string list" where
  "unpinned ds = filter (\<lambda>d. \<not> pinned d) ds"

definition packages :: "string list" where
  "packages = (case string_array [''tool'', ''setuptools'', ''packages''] pyproject of
                  None \<Rightarrow> [] | Some ps \<Rightarrow> ps)"


section \<open>Verified properties\<close>

subsection \<open>Packaging metadata\<close>

text \<open>
  Claim C5.  The metadata declares exactly one plugin entry point: the table of entry
  points has the single group \<^verbatim>\<open>hyperspy.extensions\<close>, and that group has the single
  entry that maps the name \<^verbatim>\<open>espm\<close> to the module \<^verbatim>\<open>espm\<close>.
\<close>

theorem C5_entry_point:
  "toml_get [''project'', ''entry-points''] pyproject =
     Some (TTable [(''hyperspy.extensions'', TTable [(''espm'', TString ''espm'')])])"
  by code_simp

text \<open>
  Claim C7.  The metadata has a build system declaration, whose backend is
  \<^verbatim>\<open>setuptools.build_meta\<close> and which requires \<^verbatim>\<open>setuptools>=64\<close>,
  \<^verbatim>\<open>setuptools_scm>=8\<close> and \<^verbatim>\<open>wheel\<close>, and a package list of exactly seven packages,
  each of them \<^verbatim>\<open>espm\<close> or a name that starts with \<^verbatim>\<open>espm.\<close>
\<close>

theorem C7_build_system_and_packages:
  "toml_get [''build-system''] pyproject =
     Some (TTable [
       (''requires'', TArray [TString ''setuptools>=64'', TString ''setuptools_scm>=8'',
                              TString ''wheel'']),
       (''build-backend'', TString ''setuptools.build_meta'')])
   \<and> string_array [''tool'', ''setuptools'', ''packages''] pyproject = Some packages
   \<and> packages = [''espm'', ''espm.datasets'', ''espm.estimators'', ''espm.models'',
                  ''espm.tables'', ''espm.tests'', ''espm.weights'']
   \<and> length packages = 7
   \<and> list_all is_espm packages"
  by code_simp

text \<open>
  Claim C2, as stated: every entry of the dependency list is pinned to an exact version.
  It fails: \<^verbatim>\<open>scikit-learn\<close> is listed with no version specifier.
\<close>

theorem C2_counterexample:
  "List.member dependencies ''scikit-learn'' \<and> pinned_version ''scikit-learn'' = None
   \<and> \<not> list_all pinned dependencies"
  by code_simp

text \<open>
  Claim C2, amended.  The dependency list has ten entries.  Every entry except
  \<^verbatim>\<open>scikit-learn\<close> is pinned to an exact version by an \<^verbatim>\<open>==\<close> constraint;
  \<^verbatim>\<open>scikit-learn\<close> is listed without any version constraint.
\<close>

theorem C2_pinned_except_scikit_learn:
  "length dependencies = 10
   \<and> unpinned dependencies = [''scikit-learn'']
   \<and> map requirement_name dependencies =
       [''exspy'', ''hyperspy'', ''hyperspy-gui-ipywidgets'', ''hyperspy-gui-traitsui'',
        ''intervaltree'', ''tqdm'', ''prettytable'', ''scikit-learn'', ''pyqt5'', ''traits'']
   \<and> map pinned_version dependencies =
       [Some ''0.3.1'', Some ''2.2.0'', Some ''2.0.3'', Some ''2.0.1'', Some ''3.1.0'',
        Some ''4.67.0'', Some ''3.12.0'', None, Some ''5.15.10'', Some ''7.0.2'']"
  by code_simp

subsection \<open>Calls into the library\<close>

text \<open>
  Claim C3.  The notebook imports four names from \<^verbatim>\<open>espm\<close> modules and no \<^verbatim>\<open>espm\<close>
  module as a whole; the \<^verbatim>\<open>espm\<close> functions it calls are, in order,
  \<^verbatim>\<open>chemical_map_weights\<close>, \<^verbatim>\<open>generate_modular_phases\<close>, \<^verbatim>\<open>elts_list_from_dict_list\<close>
  and \<^verbatim>\<open>generate_dataset\<close>; and none of the four modules they come from has its
  implementation file in the source tree, which holds no Python file at all.
\<close>

theorem C3_library_functions_absent:
  "espm_imports program =
     [(''espm.datasets.base'', ''generate_dataset''),
      (''espm.weights.generate_weights'', ''chemical_map_weights''),
      (''espm.models.generate_EDXS_phases'', ''generate_modular_phases''),
      (''espm.models.EDXS_function'', ''elts_list_from_dict_list'')]
   \<and> espm_module_aliases program = []
   \<and> map fst (library_calls program) =
       [''chemical_map_weights'', ''generate_modular_phases'', ''elts_list_from_dict_list'',
        ''generate_dataset'']
   \<and> filter implemented (map fst (espm_imports program)) = []
   \<and> filter (suffix ''.py'') source_tree = []"
  by code_simp

text \<open>
  Claim C1, as stated: no \<^verbatim>\<open>espm\<close> function is called with a positional argument.  It
  fails: \<^verbatim>\<open>elts_list_from_dict_list(elts_dicts)\<close> passes its argument by position.
\<close>

theorem C1_counterexample:
  "List.member (library_calls program) (''elts_list_from_dict_list'', [Name ''elts_dicts''], [])
   \<and> \<not> by_keyword (''elts_list_from_dict_list'', [Name ''elts_dicts''], [])
   \<and> \<not> keyword_only program"
  by code_simp

text \<open>
  Claim C1, amended.  The calls of \<^verbatim>\<open>chemical_map_weights\<close>, \<^verbatim>\<open>generate_modular_phases\<close>
  and \<^verbatim>\<open>generate_dataset\<close> pass all their arguments by keyword; the call of
  \<^verbatim>\<open>elts_list_from_dict_list\<close> passes its single argument, \<^verbatim>\<open>elts_dicts\<close>, by position.
\<close>

theorem C1_keyword_calls:
  "map call_shape (library_calls program) =
     [(''chemical_map_weights'', [], [''file'', ''line_list'', ''conc_list'']),
      (''generate_modular_phases'', [],
         [''elts_dicts'', ''brstlg_pars'', ''scales'', ''model_params'', ''seed'']),
      (''elts_list_from_dict_list'', [Name ''elts_dicts''], []),
      (''generate_dataset'', [],
         [''phases'', ''weights'', ''model_params'', ''misc_params'', ''base_seed'',
          ''sample_number'', ''elements''])]"
  by code_simp

subsection \<open>Configuration dictionaries\<close>

text \<open>
  Claim C4, as stated: between the definition of a configuration dictionary and its use as
  an argument, the only access is the read of \<^verbatim>\<open>data_dict["seed"]\<close>.  It fails: the cell
  that plots the phases stands between the definition of \<^verbatim>\<open>model_params\<close> and the call
  of \<^verbatim>\<open>generate_dataset\<close>, and it reads \<^verbatim>\<open>model_params["e_offset"]\<close>,
  \<^verbatim>\<open>model_params["e_scale"]\<close> and \<^verbatim>\<open>model_params["e_size"]\<close>.
\<close>

theorem C4_counterexample:
  "List.member (item_reads config_names (between ''model_params'' ''generate_dataset'' program))
     (''model_params'', StrC ''e_offset'')
   \<and> \<not> only_seed_read ''model_params'' ''generate_dataset'' program"
  by code_simp

text \<open>
  Claim C4, amended.  Each of \<^verbatim>\<open>elts_dicts\<close>, \<^verbatim>\<open>brstlg_pars\<close>, \<^verbatim>\<open>model_params\<close> and
  \<^verbatim>\<open>data_dict\<close> is the target of exactly one statement of the notebook, the assignment
  that defines it: no statement reassigns it, assigns or deletes one of its entries.
  Every other occurrence of the variable either passes the variable itself as an argument
  of a library call (\<^verbatim>\<open>elts_dicts\<close>, \<^verbatim>\<open>brstlg_pars\<close> and \<^verbatim>\<open>model_params\<close> by keyword to
  \<^verbatim>\<open>generate_modular_phases\<close>, \<^verbatim>\<open>elts_dicts\<close> by position to
  \<^verbatim>\<open>elts_list_from_dict_list\<close>, \<^verbatim>\<open>model_params\<close> and \<^verbatim>\<open>data_dict\<close> by keyword to
  \<^verbatim>\<open>generate_dataset\<close>) or reads an entry: \<^verbatim>\<open>data_dict["seed"]\<close> in the call of
  \<^verbatim>\<open>generate_dataset\<close>, and \<^verbatim>\<open>model_params["e_offset"]\<close>, \<^verbatim>\<open>model_params["e_scale"]\<close>,
  \<^verbatim>\<open>model_params["e_size"]\<close> for the energy axis of the phase plot.  No attribute of a
  dictionary is taken, so no method of it is called.
\<close>

theorem C4_dictionaries_passed_unchanged:
  "stores ''elts_dicts'' program = [Name ''elts_dicts'']
   \<and> stores ''brstlg_pars'' program = [Name ''brstlg_pars'']
   \<and> stores ''model_params'' program = [Name ''model_params'']
   \<and> stores ''data_dict'' program = [Name ''data_dict'']
   \<and> uses_in ''elts_dicts'' program =
       [Passed (Name ''generate_modular_phases'') (Some ''elts_dicts''),
        Passed (Name ''elts_list_from_dict_list'') None]
   \<and> uses_in ''brstlg_pars'' program =
       [Passed (Name ''generate_modular_phases'') (Some ''brstlg_pars'')]
   \<and> uses_in ''model_params'' program =
       [Passed (Name ''generate_modular_phases'') (Some ''model_params''),
        ItemRead (StrC ''e_offset''), ItemRead (StrC ''e_offset''),
        ItemRead (StrC ''e_scale''), ItemRead (StrC ''e_size''), ItemRead (StrC ''e_size''),
        Passed (Name ''generate_dataset'') (Some ''model_params'')]
   \<and> uses_in ''data_dict'' program =
       [Passed (Name ''generate_dataset'') (Some ''misc_params''),
        ItemRead (StrC ''seed'')]"
  by code_simp



text \<open>
  Claim C10.  The \<^verbatim>\<open>seed\<close> argument of \<^verbatim>\<open>generate_modular_phases\<close> is the literal 42,
  the \<^verbatim>\<open>seed\<close> entry of \<^verbatim>\<open>data_dict\<close> is the literal 42, and the \<^verbatim>\<open>base_seed\<close>
  argument of \<^verbatim>\<open>generate_dataset\<close> is \<^verbatim>\<open>data_dict["seed"]\<close>, which refers to that
  entry.
\<close>

theorem C10_one_seed:
  "kwarg ''generate_modular_phases'' ''seed'' program = Some (IntC 42)
   \<and> refers_to program (Subscript (Name ''data_dict'') (StrC ''seed'')) = Some (IntC 42)
   \<and> kwarg ''generate_dataset'' ''base_seed'' program
       = Some (Subscript (Name ''data_dict'') (StrC ''seed''))
   \<and> arg_value ''generate_dataset'' ''base_seed'' program = Some (IntC 42)"
  by code_simp

subsection \<open>Files\<close>

lemma Path_notebook:
  "Path ''generate_data.ipynb'' = \<lparr>is_abs = False, names = [''generate_data.ipynb'']\<rparr>"
  by code_simp

lemma Path_experimental_data:
  "Path ''generated_datasets/71GPa_experimental_data.hspy'' =
     \<lparr>is_abs = False, names = [''generated_datasets'', ''71GPa_experimental_data.hspy'']\<rparr>"
  by code_simp

lemma get_repo_path_parents:
  "get_repo_path cwd resolve = parent (parent (resolve (truediv cwd (Path ''generate_data.ipynb''))))"
  by (simp add: get_repo_path_def)

lemma this_path_in_cwd:
  "truediv cwd (Path ''generate_data.ipynb'') =
     \<lparr>is_abs = is_abs cwd, names = names cwd @ [''generate_data.ipynb'']\<rparr>"
  by (simp add: truediv_def Path_notebook)

lemma path_in_repo:
  "path cwd resolve =
     \<lparr>is_abs = is_abs (get_repo_path cwd resolve),
      names = names (get_repo_path cwd resolve)
                @ [''generated_datasets'', ''71GPa_experimental_data.hspy'']\<rparr>"
  by (simp add: path_def truediv_def Path_experimental_data)



lemma notebook_other_callees:
  "other_callees program =
     [Attribute (Name ''Path'') ''cwd'', Name ''Path'',
      Attribute (Name ''this_path'') ''resolve'', Name ''get_repo_path'', Name ''Path'',
      Attribute (Name ''plt'') ''subplots'', Name ''range'',
      Attribute (Subscript (Name ''axs'') (Name ''j'')) ''imshow'',
      Attribute (Subscript (Name ''axs'') (Name ''j'')) ''tick_params'',
      Attribute (Subscript (Name ''axs'') (Name ''j'')) ''set_title'',
      Attribute (StrC ''Phase {}'') ''format'',
      Attribute (Name ''fig'') ''subplots_adjust'',
      Attribute (Name ''fig'') ''add_axes'',
      Attribute (Name ''fig'') ''colorbar'',
      Attribute (Name ''cbar_ax'') ''tick_params'',
      Attribute (Name ''plt'') ''subplots'',
      Attribute (Name ''np'') ''linspace'', Name ''range'',
      Attribute (Subscript (Name ''axs'') (Name ''j'')) ''plot'',
      Attribute (Subscript (Name ''axs'') (Name ''j'')) ''set_title'',
      Attribute (StrC ''Phase {}'') ''format'',
      Attribute (Subscript (Name ''axs'') (USub (IntC 1))) ''set_xlabel'']"
  by code_simp

text \<open>
  An instance: started in \<^verbatim>\<open>/home/user/espm/notebooks\<close> on a file system without links
  on the way, the notebook reads \<^verbatim>\<open>/home/user/espm/generated_datasets/71GPa_experimental_data.hspy\<close>.
\<close>

lemma path_example:
  "path \<lparr>is_abs = True, names = [''home'', ''user'', ''espm'', ''notebooks'']\<rparr> (\<lambda>p. p) =
     \<lparr>is_abs = True,
      names = [''home'', ''user'', ''espm'', ''generated_datasets'',
               ''71GPa_experimental_data.hspy'']\<rparr>"
  by (simp add: path_in_repo get_repo_path_parents this_path_in_cwd parent_def)


end
